theory Spec2Isabelle
  imports Complex_Main "HOL-Library.Sublist"
begin

section \<open>Process configuration\<close>

text \<open>
  Both scripts read their configuration from the process environment after
  \<^verbatim>\<open>load_dotenv\<close> has merged a \<^verbatim>\<open>.env\<close> file into it. The environment is a
  partial map from variable names to values. An exception is a value; a
  computation that may raise returns \<open>exn + 'a\<close> with \<open>Inl\<close> for the
  exception.
\<close>

type_synonym environ = "string \<rightharpoonup> string"

datatype exn =
    KeyError string
  | RuntimeError string
  | TypeError string
  | IndexError string
  | ServiceError string

text \<open>
  \<^verbatim>\<open>load_dotenv(override=...)\<close>: the variables of the \<^verbatim>\<open>.env\<close> file are added to
  the environment; an existing variable keeps its value unless \<^verbatim>\<open>override\<close> is
  set.
\<close>

definition load_dotenv :: "bool \<Rightarrow> environ \<Rightarrow> environ \<Rightarrow> environ" where
  "load_dotenv override dotenv env = (if override then env ++ dotenv else dotenv ++ env)"

text \<open>\<^verbatim>\<open>os.environ[k]\<close> raises \<^verbatim>\<open>KeyError\<close> for a missing variable; \<^verbatim>\<open>os.getenv(k)\<close>
  and \<^verbatim>\<open>os.environ.get(k)\<close> return \<^verbatim>\<open>None\<close>.\<close>

definition environ_getitem :: "environ \<Rightarrow> string \<Rightarrow> exn + string" where
  "environ_getitem env k = (case env k of None \<Rightarrow> Inl (KeyError k) | Some v \<Rightarrow> Inr v)"

definition getenv :: "environ \<Rightarrow> string \<Rightarrow> string option" where
  "getenv env k = env k"

subsection \<open>Module initialisation of \<^verbatim>\<open>agentic_sales_email.py\<close>\<close>

text \<open>
  \<^verbatim>\<open>
  load_dotenv(override=True)
  llm_model = "gpt-4o-mini"
  sender_email = os.environ["SENDER_EMAIL"]
  receiver_email = os.environ["RECEIVER_EMAIL"]
  \<close>
  The statements stand at module level, outside any \<^verbatim>\<open>try\<close>: an exception
  raised here ends the process. The module globals that the rest of the script
  reads are collected in a record, together with the environment as it is
  after loading.
\<close>

record sales_globals =
  llm_model :: string
  sender_email :: string
  receiver_email :: string
  os_environ :: environ

definition sales_init :: "environ \<Rightarrow> environ \<Rightarrow> exn + sales_globals" where
  "sales_init dotenv env =
     (let environ = load_dotenv True dotenv env in
      case environ_getitem environ ''SENDER_EMAIL'' of
        Inl e \<Rightarrow> Inl e
      | Inr s \<Rightarrow>
          (case environ_getitem environ ''RECEIVER_EMAIL'' of
             Inl e \<Rightarrow> Inl e
           | Inr r \<Rightarrow>
               Inr \<lparr>llm_model = ''gpt-4o-mini'', sender_email = s,
                    receiver_email = r, os_environ = environ\<rparr>))"

subsection \<open>Module initialisation of \<^verbatim>\<open>hybrid_search_agent.py\<close>\<close>

text \<open>
  \<^verbatim>\<open>
  load_dotenv()
  OPENAI_API_KEY = os.getenv("OPENAI_API_KEY")
  if not OPENAI_API_KEY:
      raise RuntimeError("Please set OPENAI_API_KEY in your environment.")
  \<close>
  \<^verbatim>\<open>not OPENAI_API_KEY\<close> holds for \<^verbatim>\<open>None\<close> and for the empty string.
\<close>

definition falsy_str :: "string option \<Rightarrow> bool" where
  "falsy_str v = (case v of None \<Rightarrow> True | Some s \<Rightarrow> s = [])"

definition hybrid_init :: "environ \<Rightarrow> environ \<Rightarrow> exn + string option" where
  "hybrid_init dotenv env =
     (let OPENAI_API_KEY = getenv (load_dotenv False dotenv env) ''OPENAI_API_KEY'' in
      if falsy_str OPENAI_API_KEY
      then Inl (RuntimeError ''Please set OPENAI_API_KEY in your environment.'')
      else Inr OPENAI_API_KEY)"

section \<open>The sales-email sender\<close>

text \<open>
  The calls of the email client library inside the \<^verbatim>\<open>try\<close> block are
  parameters of the model. Each of them either raises an exception (\<open>Inl\<close>,
  carrying the text \<^verbatim>\<open>str(e)\<close> of the exception) or returns an object
  (\<open>Inr\<close>). Exceptions are those of class \<^verbatim>\<open>Exception\<close>, which is what the
  handler \<^verbatim>\<open>except Exception as e\<close> catches. The objects of the helper classes
  are values of the datatypes below; \<^verbatim>\<open>Mail(...).get()\<close> gives the request body.

  The network call \<^verbatim>\<open>sg.client.mail.send.post\<close> acts on the transactional email
  service. The state of the service is left abstract (\<open>'w\<close>) and passed
  through the call: submitting a request is applying \<open>send_post\<close> to the state
  of the service, and a state that \<open>send_post\<close> was not applied to has received
  no request.
\<close>

datatype sg_client = SendGridAPIClient "string option"
datatype email = Email string
datatype to = To string
datatype content = Content string string
datatype mail = Mail email to string content

record 'w sendgrid =
  new_client :: "string option \<Rightarrow> string + sg_client"
  new_email :: "string \<Rightarrow> string + email"
  new_to :: "string \<Rightarrow> string + to"
  new_content :: "string \<Rightarrow> string \<Rightarrow> string + content"
  mail_get :: "email \<Rightarrow> to \<Rightarrow> string \<Rightarrow> content \<Rightarrow> string + mail"
  send_post :: "'w \<Rightarrow> sg_client \<Rightarrow> mail \<Rightarrow> (string + unit) \<times> 'w"

text \<open>
  \<^verbatim>\<open>
  def send_html_email(subject: str, html_body: str) -> Dict[str, str]:
      try:
          sg = sendgrid.SendGridAPIClient(api_key=os.environ.get('SENDGRID_API_KEY'))
          from_email = Email(sender_email)
          to_email = To(receiver_email)
          content = Content("text/html", html_body)
          mail = Mail(from_email, to_email, subject, content).get()
          sg.client.mail.send.post(request_body=mail)
          return {"status": "success"}
      except Exception as e:
          return {"status": "error", "message": str(e)}
  \<close>
  The result dictionary is an association list in the order of the literal.
  The function takes the state of the email service and returns, next to the
  dictionary, the state after the call.
\<close>

definition except_result :: "string \<Rightarrow> (string \<times> string) list" where
  "except_result e = [(''status'', ''error''), (''message'', e)]"

definition send_html_email ::
  "sales_globals \<Rightarrow> 'w sendgrid \<Rightarrow> 'w \<Rightarrow> string \<Rightarrow> string \<Rightarrow> (string \<times> string) list \<times> 'w"
where
  "send_html_email g lib w subject html_body =
     (case new_client lib (getenv (os_environ g) ''SENDGRID_API_KEY'') of
        Inl e \<Rightarrow> (except_result e, w)
      | Inr sg \<Rightarrow>
     (case new_email lib (sender_email g) of
        Inl e \<Rightarrow> (except_result e, w)
      | Inr from_email \<Rightarrow>
     (case new_to lib (receiver_email g) of
        Inl e \<Rightarrow> (except_result e, w)
      | Inr to_email \<Rightarrow>
     (case new_content lib ''text/html'' html_body of
        Inl e \<Rightarrow> (except_result e, w)
      | Inr content \<Rightarrow>
     (case mail_get lib from_email to_email subject content of
        Inl e \<Rightarrow> (except_result e, w)
      | Inr mail \<Rightarrow>
     (case send_post lib w sg mail of
        (Inl e, w') \<Rightarrow> (except_result e, w')
      | (Inr _, w') \<Rightarrow> ([(''status'', ''success'')], w')))))))"

text \<open>Concrete environments and services used to evaluate the model.\<close>

definition demo_environ :: environ where
  "demo_environ = [''SENDER_EMAIL'' \<mapsto> ''a@x.io'', ''RECEIVER_EMAIL'' \<mapsto> ''b@y.io'']"

definition demo_globals :: sales_globals where
  "demo_globals = \<lparr>llm_model = ''gpt-4o-mini'', sender_email = ''a@x.io'',
                   receiver_email = ''b@y.io'', os_environ = demo_environ\<rparr>"

text \<open>
  An email service whose state is the list of the requests it has received.
  The first accepts every request, the second refuses every request after
  receiving it.
\<close>

definition post_ok :: "(sg_client \<times> mail) list \<Rightarrow> sg_client \<Rightarrow> mail \<Rightarrow> (string + unit) \<times> (sg_client \<times> mail) list" where
  "post_ok received sg m = (Inr (), received @ [(sg, m)])"

definition post_fails :: "(sg_client \<times> mail) list \<Rightarrow> sg_client \<Rightarrow> mail \<Rightarrow> (string + unit) \<times> (sg_client \<times> mail) list" where
  "post_fails received sg m = (Inl ''HTTP Error 401: Unauthorized'', received @ [(sg, m)])"

definition sendgrid_ok :: "(sg_client \<times> mail) list sendgrid" where
  "sendgrid_ok =
     \<lparr>new_client = (\<lambda>k. Inr (SendGridAPIClient k)), new_email = (\<lambda>a. Inr (Email a)),
      new_to = (\<lambda>a. Inr (To a)), new_content = (\<lambda>t v. Inr (Content t v)),
      mail_get = (\<lambda>f t s c. Inr (Mail f t s c)), send_post = post_ok\<rparr>"

definition sendgrid_fails :: "(sg_client \<times> mail) list sendgrid" where
  "sendgrid_fails =
     \<lparr>new_client = (\<lambda>k. Inr (SendGridAPIClient k)), new_email = (\<lambda>a. Inr (Email a)),
      new_to = (\<lambda>a. Inr (To a)), new_content = (\<lambda>t v. Inr (Content t v)),
      mail_get = (\<lambda>f t s c. Inr (Mail f t s c)), send_post = post_fails\<rparr>"

section \<open>The hybrid search agent\<close>

subsection \<open>Values, messages and the conversation history\<close>

text \<open>
  Python values that occur in the dictionaries of the script, and a dictionary
  literal as an association list in the order it is written.
\<close>

datatype pyval = PNone | PStr string | PInt int | PFloat real

type_synonym pydict = "(string \<times> pyval) list"

text \<open>
  A tool call of a model response. \<^verbatim>\<open>chat\<close> reads \<^verbatim>\<open>call.id\<close> and \<^verbatim>\<open>call.name\<close>,
  \<^verbatim>\<open>dispatch_tool_call\<close> reads \<^verbatim>\<open>call["name"]\<close> and \<^verbatim>\<open>call.get("arguments", {})\<close>:
  the call is a record of these three fields, where the arguments may be
  absent. The arguments are the keyword arguments handed to
  \<^verbatim>\<open>internal_search_tool(query: str, top_k: int = 5)\<close>: an optional \<^verbatim>\<open>query\<close>, an
  optional \<^verbatim>\<open>top_k\<close>, and the names of any other keys.
\<close>

record kwargs =
  kw_query :: "string option"
  kw_top_k :: "int option"
  kw_others :: "string list"

record tool_call =
  call_id :: string
  call_name :: string
  call_arguments :: "kwargs option"

text \<open>The message object of a model response (\<^verbatim>\<open>response.choices[0].message\<close>).\<close>

record chat_message =
  role :: string
  content :: "string option"
  tool_calls :: "tool_call list option"

text \<open>
  The history holds the dictionaries that \<^verbatim>\<open>chat\<close> builds and the message
  objects that it appends as they are.
\<close>

datatype hist_entry = Dict pydict | Msg chat_message

definition entry_role :: "hist_entry \<Rightarrow> pyval option" where
  "entry_role e = (case e of Dict d \<Rightarrow> map_of d ''role'' | Msg m \<Rightarrow> Some (PStr (role m)))"

definition role_tagged :: "hist_entry \<Rightarrow> bool" where
  "role_tagged e =
     (entry_role e = Some (PStr ''user'') \<or> entry_role e = Some (PStr ''assistant'')
      \<or> entry_role e = Some (PStr ''tool''))"

subsection \<open>The vector index\<close>

text \<open>
  The similarity search \<^verbatim>\<open>collection.query(query_texts=[query], n_results=top_k)\<close>
  belongs to the vector store: it is a parameter of the model. It takes the
  state of the index, the query text and the number of results, and gives the
  result of the call (an exception or the result object) and the state of the
  index after the call. The state of the index is left abstract (\<open>'idx\<close>).
\<close>

record query_result =
  res_ids :: "string list list"
  res_documents :: "string list list"
  res_distances :: "real list list"

type_synonym 'idx query_fn = "'idx \<Rightarrow> string \<Rightarrow> int \<Rightarrow> (exn + query_result) \<times> 'idx"

text \<open>\<^verbatim>\<open>xs[0]\<close> raises \<^verbatim>\<open>IndexError\<close> on the empty list.\<close>

definition getitem0 :: "'a list \<Rightarrow> exn + 'a" where
  "getitem0 xs = (case xs of [] \<Rightarrow> Inl (IndexError ''list index out of range'') | x # _ \<Rightarrow> Inr x)"

text \<open>
  \<^verbatim>\<open>
  def internal_search_tool(query: str, top_k: int = 5) -> List[Dict]:
      res = collection.query(query_texts=[query], n_results=top_k)
      hits = []
      for rank, (doc_id, doc_text, score) in enumerate(
          zip(res["ids"][0], res["documents"][0], res["distances"][0]), start=1
      ):
          hits.append({"rank": rank, "id": doc_id, "text": doc_text, "score": score})
      return hits
  \<close>
  The loop appends one dictionary per element of the enumeration, in order: it
  is a \<open>map\<close> over \<^const>\<open>enumerate\<close>. Python's \<^verbatim>\<open>zip\<close> of three lists stops
  with the shortest, as the nested \<^const>\<open>zip\<close> does.
\<close>

definition mk_hit :: "nat \<times> string \<times> string \<times> real \<Rightarrow> pydict" where
  "mk_hit = (\<lambda>(rank, doc_id, doc_text, score).
     [(''rank'', PInt (int rank)), (''id'', PStr doc_id),
      (''text'', PStr doc_text), (''score'', PFloat score)])"

definition internal_search_tool ::
  "'idx query_fn \<Rightarrow> 'idx \<Rightarrow> string \<Rightarrow> int \<Rightarrow> (exn + pydict list) \<times> 'idx"
where
  "internal_search_tool collection_query idx query top_k =
     (case collection_query idx query top_k of
        (Inl e, idx') \<Rightarrow> (Inl e, idx')
      | (Inr res, idx') \<Rightarrow>
          (case getitem0 (res_ids res) of
             Inl e \<Rightarrow> (Inl e, idx')
           | Inr ids \<Rightarrow>
               (case getitem0 (res_documents res) of
                  Inl e \<Rightarrow> (Inl e, idx')
                | Inr documents \<Rightarrow>
                    (case getitem0 (res_distances res) of
                       Inl e \<Rightarrow> (Inl e, idx')
                     | Inr distances \<Rightarrow>
                         (Inr (map mk_hit (enumerate 1 (zip ids (zip documents distances)))),
                          idx')))))"

subsection \<open>Tool dispatch\<close>

text \<open>
  Binding \<^verbatim>\<open>**arguments\<close> to the parameters of \<^verbatim>\<open>internal_search_tool\<close>: an
  unknown keyword or a missing \<^verbatim>\<open>query\<close> raises \<^verbatim>\<open>TypeError\<close>; a missing
  \<^verbatim>\<open>top_k\<close> takes the default 5.
\<close>

definition bind_arguments :: "kwargs \<Rightarrow> exn + string \<times> int" where
  "bind_arguments kw =
     (if kw_others kw \<noteq> [] then Inl (TypeError ''internal_search_tool'')
      else case kw_query kw of
             None \<Rightarrow> Inl (TypeError ''internal_search_tool'')
           | Some q \<Rightarrow> Inr (q, case kw_top_k kw of None \<Rightarrow> 5 | Some k \<Rightarrow> k))"

definition empty_kwargs :: kwargs where
  "empty_kwargs = \<lparr>kw_query = None, kw_top_k = None, kw_others = []\<rparr>"

text \<open>
  \<^verbatim>\<open>
  def dispatch_tool_call(call) -> List[Dict]:
      if call["name"] == "internal_search":
          return internal_search_tool(**call.get("arguments", {}))
      return []
  \<close>
\<close>

definition dispatch_tool_call ::
  "'idx query_fn \<Rightarrow> 'idx \<Rightarrow> tool_call \<Rightarrow> (exn + pydict list) \<times> 'idx"
where
  "dispatch_tool_call collection_query idx call =
     (if call_name call = ''internal_search'' then
        (case bind_arguments (case call_arguments call of None \<Rightarrow> empty_kwargs | Some kw \<Rightarrow> kw) of
           Inl e \<Rightarrow> (Inl e, idx)
         | Inr (query, top_k) \<Rightarrow> internal_search_tool collection_query idx query top_k)
      else (Inr [], idx))"

subsection \<open>The chat loop\<close>

text \<open>
  The services that \<^verbatim>\<open>chat\<close> calls: the completion endpoint (a function of the
  messages it is sent; the other arguments of the request are constants),
  giving an exception or the messages of the choices of the response; the
  query of the vector store; and \<^verbatim>\<open>json.dumps\<close> on a list of hits.
\<close>

record 'idx services =
  completions_create :: "hist_entry list \<Rightarrow> exn + chat_message list"
  collection_query :: "'idx query_fn"
  json_dumps :: "pydict list \<Rightarrow> string"

text \<open>The state of a chat session: the history list and the vector index.\<close>

record 'idx chat_state =
  history :: "hist_entry list"
  index :: 'idx

text \<open>
  What a run has come to: it is still in the loop, it has returned
  \<^verbatim>\<open>msg.content\<close>, or an exception has left \<^verbatim>\<open>chat\<close>; each with the state
  reached.
\<close>

datatype 'idx outcome =
    Running "'idx chat_state"
  | Returned "string option" "'idx chat_state"
  | Raised exn "'idx chat_state"


fun is_Returned :: "'idx outcome \<Rightarrow> bool" where
  "is_Returned (Returned c st) = True"
| "is_Returned _ = False"

definition pending :: "tool_call list option \<Rightarrow> tool_call list" where
  "pending tcs = (case tcs of None \<Rightarrow> [] | Some cs \<Rightarrow> cs)"

definition py_content :: "string option \<Rightarrow> pyval" where
  "py_content c = (case c of None \<Rightarrow> PNone | Some s \<Rightarrow> PStr s)"

definition append_entry :: "hist_entry \<Rightarrow> 'idx chat_state \<Rightarrow> 'idx chat_state" where
  "append_entry e st = st\<lparr>history := history st @ [e]\<rparr>"

text \<open>
  The body of \<^verbatim>\<open>for call in msg.tool_calls\<close>: a call named \<^verbatim>\<open>internal_search\<close>
  is dispatched and its result appended as a tool record; any other call is
  passed over. An exception of the dispatch leaves the loop.
\<close>

fun run_tool_calls ::
  "'idx services \<Rightarrow> tool_call list \<Rightarrow> 'idx chat_state \<Rightarrow> exn option \<times> 'idx chat_state"
where
  "run_tool_calls env [] st = (None, st)"
| "run_tool_calls env (call # calls) st =
     (if call_name call = ''internal_search'' then
        (case dispatch_tool_call (collection_query env) (index st) call of
           (Inl e, idx') \<Rightarrow> (Some e, st\<lparr>index := idx'\<rparr>)
         | (Inr result, idx') \<Rightarrow>
             run_tool_calls env calls
               (append_entry
                  (Dict [(''role'', PStr ''tool''), (''tool_call_id'', PStr (call_id call)),
                         (''name'', PStr (call_name call)),
                         (''content'', PStr (json_dumps env result))])
                  (st\<lparr>index := idx'\<rparr>)))
      else run_tool_calls env calls st)"

text \<open>
  One iteration of \<^verbatim>\<open>while True\<close>: request a completion, take the message of
  the first choice, then the three branches of the source in their order. A
  list of tool calls is true when it is neither \<^verbatim>\<open>None\<close> nor empty.
\<close>

definition chat_step :: "'idx services \<Rightarrow> 'idx chat_state \<Rightarrow> 'idx outcome" where
  "chat_step env st =
     (case completions_create env (history st) of
        Inl e \<Rightarrow> Raised e st
      | Inr choices \<Rightarrow>
          (case getitem0 choices of
             Inl e \<Rightarrow> Raised e st
           | Inr msg \<Rightarrow>
               if pending (tool_calls msg) \<noteq> [] then
                 (case run_tool_calls env (pending (tool_calls msg)) (append_entry (Msg msg) st) of
                    (Some e, st') \<Rightarrow> Raised e st'
                  | (None, st') \<Rightarrow> Running st')
               else if role msg = ''tool'' then Running (append_entry (Msg msg) st)
               else Returned (content msg)
                      (append_entry
                         (Dict [(''role'', PStr ''assistant''), (''content'', py_content (content msg))])
                         st)))"

text \<open>
  The loop has no bound in the source. The model runs it for a given number of
  iterations: the outcome is \<open>Running\<close> when the loop has not been left within
  them.
\<close>

fun chat_loop :: "'idx services \<Rightarrow> nat \<Rightarrow> 'idx chat_state \<Rightarrow> 'idx outcome" where
  "chat_loop env 0 st = Running st"
| "chat_loop env (Suc n) st =
     (case chat_step env st of
        Running st' \<Rightarrow> chat_loop env n st'
      | Returned c st' \<Rightarrow> Returned c st'
      | Raised e st' \<Rightarrow> Raised e st')"

text \<open>
  \<^verbatim>\<open>
  def chat(query: str, history: List[Dict] | None = None, model: str = "gpt-4o-mini") -> str:
      history = history or []
      history.append({"role": "user", "content": query})
      while True: ...
  \<close>
\<close>

definition user_entry :: "string \<Rightarrow> hist_entry" where
  "user_entry query = Dict [(''role'', PStr ''user''), (''content'', PStr query)]"

definition chat ::
  "'idx services \<Rightarrow> nat \<Rightarrow> 'idx \<Rightarrow> string \<Rightarrow> hist_entry list option \<Rightarrow> 'idx outcome"
where
  "chat env fuel idx query history0 =
     chat_loop env fuel
       (append_entry (user_entry query)
          \<lparr>history = (case history0 of None \<Rightarrow> [] | Some h \<Rightarrow> h), index = idx\<rparr>)"

subsection \<open>The interactive loop\<close>



subsection \<open>Ingestion\<close>

text \<open>
  Modelled from the spec: the collection of the vector store, whose \<^verbatim>\<open>add\<close> and
  \<^verbatim>\<open>count\<close> are client-library calls outside the repository. Following the
  data model of the spec, the collection holds document records, each
  "comprising free text, a generated unique identifier, and an empty metadata
  map"; \<^verbatim>\<open>add\<close> takes the documents, identifiers and metadata maps position by
  position and stores one record for each position; \<^verbatim>\<open>count\<close> reports the
  number of records stored.
\<close>

record doc_record =
  doc_id :: string
  doc_text :: string
  doc_metadata :: pydict






subsection \<open>Concrete services used to evaluate the model\<close>

definition demo_result :: query_result where
  "demo_result =
     \<lparr>res_ids = [[''id-1'', ''id-2'']], res_documents = [[''alpha'', ''beta'']],
      res_distances = [[1 / 4, 1 / 2]]\<rparr>"

definition demo_query :: "nat query_fn" where
  "demo_query idx query top_k = (Inr demo_result, idx)"

definition search_call :: tool_call where
  "search_call =
     \<lparr>call_id = ''c1'', call_name = ''internal_search'',
      call_arguments = Some \<lparr>kw_query = Some ''alpha'', kw_top_k = Some 2, kw_others = []\<rparr>\<rparr>"

definition web_call :: tool_call where
  "web_call = \<lparr>call_id = ''c2'', call_name = ''web_search'', call_arguments = None\<rparr>"

definition calling_message :: chat_message where
  "calling_message = \<lparr>role = ''assistant'', content = None, tool_calls = Some [web_call, search_call]\<rparr>"

definition final_message :: chat_message where
  "final_message = \<lparr>role = ''assistant'', content = Some ''B'', tool_calls = None\<rparr>"

definition tool_message :: chat_message where
  "tool_message = \<lparr>role = ''tool'', content = Some ''A'', tool_calls = None\<rparr>"

text \<open>A model that first asks for both tools and answers once it is sent more
  than the user message.\<close>

definition demo_create :: "hist_entry list \<Rightarrow> exn + chat_message list" where
  "demo_create h = (if length h \<le> 1 then Inr [calling_message] else Inr [final_message])"

text \<open>A model that first sends a tool-role message without tool calls.\<close>

definition tool_create :: "hist_entry list \<Rightarrow> exn + chat_message list" where
  "tool_create h = (if length h \<le> 1 then Inr [tool_message] else Inr [final_message])"

definition demo_dumps :: "pydict list \<Rightarrow> string" where
  "demo_dumps hits = (if hits = [] then ''[]'' else ''[...]'')"

definition demo_services :: "nat services" where
  "demo_services =
     \<lparr>completions_create = demo_create, collection_query = demo_query, json_dumps = demo_dumps\<rparr>"

definition tool_services :: "nat services" where
  "tool_services =
     \<lparr>completions_create = tool_create, collection_query = demo_query, json_dumps = demo_dumps\<rparr>"






section \<open>Properties of the sales-email script\<close>

lemma load_dotenv_missing:
  "dotenv k = None \<Longrightarrow> env k = None \<Longrightarrow> load_dotenv b dotenv env k = None"
  by (simp add: load_dotenv_def map_add_def)

text \<open>
  Claim C3. For every subject and HTML body, when the email-send call raises
  (the calls before it having built the client and the message),
  \<^verbatim>\<open>send_html_email\<close> returns the dictionary with status \<^verbatim>\<open>error\<close> and the text
  of the exception as message; the exception is not propagated (the function
  has a result), and the send call is not repeated: the service is left in the
  state after that one call.
\<close>

theorem send_html_email_failure:
  assumes "new_client lib (getenv (os_environ g) ''SENDGRID_API_KEY'') = Inr sg"
    and "new_email lib (sender_email g) = Inr from_email"
    and "new_to lib (receiver_email g) = Inr to_email"
    and "new_content lib ''text/html'' html_body = Inr html_content"
    and "mail_get lib from_email to_email subject html_content = Inr mail"
    and "send_post lib w sg mail = (Inl e, w')"
  shows "send_html_email g lib w subject html_body
           = ([(''status'', ''error''), (''message'', e)], w')"
  using assms by (simp add: send_html_email_def except_result_def)

theorem send_html_email_failure_witness:
  "send_html_email demo_globals sendgrid_fails [] ''Hello'' ''<p>Hi</p>''
     = ([(''status'', ''error''), (''message'', ''HTTP Error 401: Unauthorized'')],
        [(SendGridAPIClient None,
          Mail (Email ''a@x.io'') (To ''b@y.io'') ''Hello'' (Content ''text/html'' ''<p>Hi</p>''))])"
  using send_html_email_failure [where lib = sendgrid_fails and g = demo_globals and w = "[]"
      and subject = "''Hello''" and html_body = "''<p>Hi</p>''"
      and sg = "SendGridAPIClient None" and from_email = "Email ''a@x.io''"
      and to_email = "To ''b@y.io''" and html_content = "Content ''text/html'' ''<p>Hi</p>''"
      and mail = "Mail (Email ''a@x.io'') (To ''b@y.io'') ''Hello'' (Content ''text/html'' ''<p>Hi</p>'')"
      and e = "''HTTP Error 401: Unauthorized''"
      and w' = "[(SendGridAPIClient None,
          Mail (Email ''a@x.io'') (To ''b@y.io'') ''Hello'' (Content ''text/html'' ''<p>Hi</p>''))]"]
  by (simp add: sendgrid_fails_def post_fails_def demo_globals_def demo_environ_def getenv_def)

text \<open>
  A library call that raises before the send call leaves the service as it
  was: no request is submitted, and the result is the error dictionary.
\<close>

lemma send_html_email_no_request:
  "new_client lib (getenv (os_environ g) ''SENDGRID_API_KEY'') = Inl e
   \<or> new_email lib (sender_email g) = Inl e
   \<or> new_to lib (receiver_email g) = Inl e
   \<or> new_content lib ''text/html'' html_body = Inl e
   \<Longrightarrow> snd (send_html_email g lib w subject html_body) = w"
  by (auto simp: send_html_email_def split: sum.splits prod.splits)

text \<open>On every path the send call is applied at most once.\<close>

lemma send_html_email_at_most_one:
  "snd (send_html_email g lib w subject html_body) = w
   \<or> (\<exists>sg m. snd (send_html_email g lib w subject html_body) = snd (send_post lib w sg m))"
proof -
  have "\<exists>sg' m'. w' = snd (send_post lib w sg' m')" if "send_post lib w sg m = (r, w')"
    for sg m r w'
    using that by (metis snd_conv)
  then show ?thesis
    by (auto simp: send_html_email_def split: sum.splits prod.splits)
qed



text \<open>
  Claim C9. \<^verbatim>\<open>send_html_email\<close> always returns a result dictionary: either the
  singleton \<^verbatim>\<open>{"status": "success"}\<close>, or a dictionary with status \<^verbatim>\<open>error\<close>
  and a message. The key \<^verbatim>\<open>message\<close> is present exactly when the status is
  \<^verbatim>\<open>error\<close>.
\<close>

theorem send_html_email_total:
  "\<exists>res w'. send_html_email g lib w subject html_body = (res, w')
     \<and> (res = [(''status'', ''success'')]
          \<or> (\<exists>e. res = [(''status'', ''error''), (''message'', e)]))
     \<and> (map_of res ''status'' = Some ''success'' \<or> map_of res ''status'' = Some ''error'')
     \<and> (''message'' \<in> fst ` set res \<longleftrightarrow> map_of res ''status'' = Some ''error'')"
  by (auto simp: send_html_email_def except_result_def split: sum.splits prod.splits)

theorem send_html_email_total_witness:
  "send_html_email demo_globals sendgrid_ok [] ''Hello'' ''<p>Hi</p>''
     = ([(''status'', ''success'')],
        [(SendGridAPIClient None,
          Mail (Email ''a@x.io'') (To ''b@y.io'') ''Hello'' (Content ''text/html'' ''<p>Hi</p>''))])
   \<and> (''message'' \<in> fst ` set (fst (send_html_email demo_globals sendgrid_ok [] ''Hello'' ''<p>Hi</p>''))
        \<longleftrightarrow> map_of (fst (send_html_email demo_globals sendgrid_ok [] ''Hello'' ''<p>Hi</p>'')) ''status''
              = Some ''error'')"
  using send_html_email_total [of demo_globals sendgrid_ok "[]" "''Hello''" "''<p>Hi</p>''"]
  by (auto simp: send_html_email_def sendgrid_ok_def post_ok_def demo_globals_def
      demo_environ_def getenv_def)

text \<open>
  Claim C8. When a required configuration variable is missing (neither the
  process environment nor the \<^verbatim>\<open>.env\<close> file defines it), module initialisation
  raises: \<^verbatim>\<open>KeyError\<close> for \<^verbatim>\<open>SENDER_EMAIL\<close> or \<^verbatim>\<open>RECEIVER_EMAIL\<close> in the
  sales-email script, \<^verbatim>\<open>RuntimeError\<close> for \<^verbatim>\<open>OPENAI_API_KEY\<close> in the hybrid
  search script. The variable is read once and the exception is the outcome of
  initialisation: no value is returned and no second attempt is made.
\<close>

theorem missing_configuration_raises:
  "(dotenv ''SENDER_EMAIL'' = None \<and> env ''SENDER_EMAIL'' = None
      \<longrightarrow> sales_init dotenv env = Inl (KeyError ''SENDER_EMAIL''))
   \<and> (dotenv ''RECEIVER_EMAIL'' = None \<and> env ''RECEIVER_EMAIL'' = None
      \<longrightarrow> sales_init dotenv env = Inl (KeyError ''SENDER_EMAIL'')
          \<or> sales_init dotenv env = Inl (KeyError ''RECEIVER_EMAIL''))
   \<and> (dotenv ''OPENAI_API_KEY'' = None \<and> env ''OPENAI_API_KEY'' = None
      \<longrightarrow> hybrid_init dotenv env
            = Inl (RuntimeError ''Please set OPENAI_API_KEY in your environment.''))"
  by (auto simp: sales_init_def hybrid_init_def environ_getitem_def getenv_def falsy_str_def
      Let_def load_dotenv_missing split: option.splits)

theorem missing_configuration_raises_witness:
  "sales_init Map.empty Map.empty = Inl (KeyError ''SENDER_EMAIL'')
   \<and> sales_init Map.empty [''SENDER_EMAIL'' \<mapsto> ''a@x.io''] = Inl (KeyError ''RECEIVER_EMAIL'')
   \<and> hybrid_init Map.empty [''SENDER_EMAIL'' \<mapsto> ''a@x.io'']
       = Inl (RuntimeError ''Please set OPENAI_API_KEY in your environment.'')"
  using missing_configuration_raises [of Map.empty Map.empty]
    missing_configuration_raises [of Map.empty "[''SENDER_EMAIL'' \<mapsto> ''a@x.io'']"]
  by (auto simp: sales_init_def environ_getitem_def load_dotenv_def Let_def)

section \<open>Properties of the hybrid search agent\<close>







lemma run_tool_calls_skip:
  "call_name call \<noteq> ''internal_search'' \<Longrightarrow>
     run_tool_calls env (pre @ call # post) st = run_tool_calls env (pre @ post) st"
  by (induction pre arbitrary: st) (auto split: prod.splits sum.splits)

text \<open>
  Claim C5. A tool call whose name is not \<^verbatim>\<open>internal_search\<close> causes no local
  action: \<^verbatim>\<open>dispatch_tool_call\<close> returns the empty list and leaves the index
  as it is; the loop over the tool calls of a response leaves history and
  index unchanged for it, and runs as if the call were not in the list.
\<close>

theorem other_tool_no_local_action:
  assumes "call_name call \<noteq> ''internal_search''"
  shows "dispatch_tool_call cq idx call = (Inr [], idx)
         \<and> run_tool_calls env [call] st = (None, st)
         \<and> run_tool_calls env (pre @ call # post) st = run_tool_calls env (pre @ post) st"
  using assms by (simp add: dispatch_tool_call_def run_tool_calls_skip)

theorem other_tool_no_local_action_witness:
  "dispatch_tool_call demo_query (0::nat) web_call = (Inr [], 0)
   \<and> run_tool_calls demo_services [web_call] \<lparr>history = [], index = 0\<rparr>
       = (None, \<lparr>history = [], index = 0\<rparr>)
   \<and> run_tool_calls demo_services ([] @ web_call # [search_call]) \<lparr>history = [], index = 0\<rparr>
       = run_tool_calls demo_services ([] @ [search_call]) \<lparr>history = [], index = 0\<rparr>"
  using other_tool_no_local_action [of web_call demo_query 0 demo_services
      "\<lparr>history = [], index = 0\<rparr>" "[]" "[search_call]"]
  by (simp add: web_call_def)


subsection \<open>The history only grows\<close>

lemma history_append_entry [simp]: "history (append_entry e st) = history st @ [e]"
  by (simp add: append_entry_def)








subsection \<open>Roles of the entries\<close>

lemma role_tagged_built [simp]:
  "role_tagged (user_entry q)"
  "role_tagged (Dict ((''role'', PStr ''tool'') # d))"
  "role_tagged (Dict ((''role'', PStr ''assistant'') # d))"
  by (simp_all add: role_tagged_def entry_role_def user_entry_def)









text \<open>
  A response without tool calls whose role is \<^verbatim>\<open>tool\<close> does not end the loop:
  the model below first sends such a message, with content \<^verbatim>\<open>A\<close>; after one
  iteration \<^verbatim>\<open>chat\<close> is still in the loop, and it returns \<^verbatim>\<open>B\<close>, the content of
  the next response, after two.
\<close>

theorem chat_tool_message_counterexample:
  "completions_create tool_services [user_entry ''q''] = Inr [tool_message]
   \<and> pending (tool_calls tool_message) = []
   \<and> content tool_message = Some ''A''
   \<and> chat tool_services 1 (0::nat) ''q'' None
       = Running \<lparr>history = [user_entry ''q'', Msg tool_message], index = 0\<rparr>
   \<and> chat tool_services 2 (0::nat) ''q'' None
       = Returned (Some ''B'')
           \<lparr>history = [user_entry ''q'', Msg tool_message,
                       Dict [(''role'', PStr ''assistant''), (''content'', PStr ''B'')]],
            index = 0\<rparr>"
  by (simp add: chat_def numeral_2_eq_2 chat_step_def tool_services_def tool_create_def
      getitem0_def pending_def tool_message_def final_message_def append_entry_def
      py_content_def user_entry_def)

text \<open>
  Claim C1, as the code has it. When the response has no tool calls and its
  role is not \<^verbatim>\<open>tool\<close>, \<^verbatim>\<open>chat\<close> returns the content of that response in that
  iteration, whatever the number of iterations allowed. When the response has
  tool calls, or its role is \<^verbatim>\<open>tool\<close>, the iteration does not return; if the
  loop returns at all, it does so in a later iteration.
\<close>

theorem chat_returns_on_final_message:
  assumes "completions_create env (history st) = Inr (msg # rest)"
  shows "(pending (tool_calls msg) = [] \<and> role msg \<noteq> ''tool''
            \<longrightarrow> chat_loop env (Suc n) st
                  = Returned (content msg)
                      (append_entry
                         (Dict [(''role'', PStr ''assistant''), (''content'', py_content (content msg))])
                         st))
         \<and> (pending (tool_calls msg) \<noteq> [] \<or> role msg = ''tool''
            \<longrightarrow> \<not> is_Returned (chat_step env st)
                \<and> \<not> is_Returned (chat_loop env (Suc 0) st)
                \<and> (is_Returned (chat_loop env (Suc n) st)
                     \<longrightarrow> (\<exists>st'. chat_step env st = Running st'
                               \<and> chat_loop env (Suc n) st = chat_loop env n st')))"
proof -
  have fin: "chat_step env st
               = Returned (content msg)
                   (append_entry
                      (Dict [(''role'', PStr ''assistant''), (''content'', py_content (content msg))])
                      st)"
    if "pending (tool_calls msg) = []" "role msg \<noteq> ''tool''"
    using assms that by (simp add: chat_step_def getitem0_def)
  have cont: "\<not> is_Returned (chat_step env st)"
    if "pending (tool_calls msg) \<noteq> [] \<or> role msg = ''tool''"
    using assms that by (auto simp: chat_step_def getitem0_def split: prod.splits option.splits)
  have later: "\<exists>st'. chat_step env st = Running st' \<and> chat_loop env (Suc n) st = chat_loop env n st'"
    if "\<not> is_Returned (chat_step env st)" "is_Returned (chat_loop env (Suc n) st)"
    using that by (cases "chat_step env st") simp_all
  have one: "\<not> is_Returned (chat_loop env (Suc 0) st)" if "\<not> is_Returned (chat_step env st)"
    using that by (cases "chat_step env st") simp_all
  from fin cont later one show ?thesis by simp
qed

theorem chat_returns_on_final_message_witness:
  "chat_loop demo_services (Suc 0) \<lparr>history = [user_entry ''q'', Msg calling_message], index = 0::nat\<rparr>
     = Returned (Some ''B'')
         \<lparr>history = [user_entry ''q'', Msg calling_message,
                     Dict [(''role'', PStr ''assistant''), (''content'', PStr ''B'')]],
          index = 0\<rparr>
   \<and> \<not> is_Returned (chat_step demo_services \<lparr>history = [user_entry ''q''], index = 0::nat\<rparr>)"
proof -
  have 1: "completions_create demo_services
             (history \<lparr>history = [user_entry ''q'', Msg calling_message], index = 0::nat\<rparr>)
           = Inr (final_message # [])"
    by (simp add: demo_services_def demo_create_def)
  have 2: "completions_create demo_services (history \<lparr>history = [user_entry ''q''], index = 0::nat\<rparr>)
           = Inr (calling_message # [])"
    by (simp add: demo_services_def demo_create_def)
  from chat_returns_on_final_message [OF 1, of 0] chat_returns_on_final_message [OF 2, of 0]
  show ?thesis
    by (simp add: pending_def final_message_def calling_message_def append_entry_def
        py_content_def)
qed

subsection \<open>A read-only query leaves the index as it is\<close>











subsection \<open>Ingesting documents\<close>






end
